theory Spec2Isabelle
  imports Complex_Main
begin

section \<open>Sensor statistics with a result cache (app.py)\<close>

text \<open>
  The service answers \<^verbatim>\<open>GET /stats\<close> over a table of sensor readings that is loaded once,
  and memoises every answer in a dictionary keyed by the normalised query.  The handler
  \<^verbatim>\<open>stats\<close> and its helpers \<^verbatim>\<open>_parse_date\<close>, \<^verbatim>\<open>_make_cache_key\<close> and
  \<^verbatim>\<open>_compute_stats_from_df\<close> are embedded below, one definition per source function.

  Conventions of the embedding.
  \<^item> The two module globals \<^verbatim>\<open>_df\<close> and \<^verbatim>\<open>_cache\<close> form an explicit state that the
    handler receives and returns.  Requests are handled one after another; the lock
    \<^verbatim>\<open>_cache_lock\<close> and interleavings of handlers are not modelled.
  \<^item> A data frame is the list of its rows, in order.  A boolean-mask selection
    \<^verbatim>\<open>df[df[c] == x]\<close> is a \<open>filter\<close> of that list.
  \<^item> The column \<^verbatim>\<open>value\<close> holds 64-bit floats in the program.  It is modelled by exact
    reals: rounding, infinities and NaN are outside the model.
  \<^item> A timestamp is the number of nanoseconds since the epoch, the representation of
    pandas' \<^verbatim>\<open>datetime64[ns]\<close>; comparing timestamps compares these numbers.
  \<^item> \<^verbatim>\<open>pd.to_datetime\<close> and \<^verbatim>\<open>Timestamp.isoformat\<close> belong to pandas, not to this
    program.  They are parameters of the model: \<open>to_datetime s = None\<close> stands for
    \<^verbatim>\<open>pd.to_datetime(s)\<close> raising, \<open>Some t\<close> for it returning the timestamp \<open>t\<close>.
  \<^item> An exception is a value: \<^verbatim>\<open>ValueError(msg)\<close> is \<open>Inl msg\<close> in \<open>parse_date\<close>, and
    \<^verbatim>\<open>HTTPException(status_code, detail)\<close> is \<open>Inl (HTTPException status_code detail)\<close> in
    \<open>stats\<close>.
  \<^item> Strings are lists of 8-bit characters; \<^verbatim>\<open>str.strip\<close> and \<^verbatim>\<open>str.lower\<close> are modelled
    on ASCII.
\<close>

subsection \<open>Data\<close>

type_synonym timestamp = int

text \<open>One row of the data frame \<^verbatim>\<open>_df\<close>: the columns timestamp, location, sensor, value.\<close>

record reading =
  col_timestamp :: timestamp
  col_location :: string
  col_sensor :: string
  col_value :: real

text \<open>The query parameters of \<^verbatim>\<open>stats\<close>; each is \<^verbatim>\<open>Optional[str]\<close> with default \<^verbatim>\<open>None\<close>.\<close>

record query =
  location :: "string option"
  sensor :: "string option"
  start_date :: "string option"
  end_date :: "string option"

text \<open>The dictionary \<^verbatim>\<open>{"count": .., "avg": .., "min": .., "max": ..}\<close>.\<close>

record stats_obj =
  count :: int
  avg :: "real option"
  min_val :: "real option"
  max_val :: "real option"

type_synonym cache_key = "string option \<times> string option \<times> string option \<times> string option"

text \<open>The globals: \<^verbatim>\<open>_df\<close> is \<^verbatim>\<open>None\<close> until \<^verbatim>\<open>load_data\<close> has run; \<^verbatim>\<open>_cache\<close> is a dict.\<close>

record state =
  df :: "reading list option"
  cache :: "cache_key \<rightharpoonup> stats_obj"

datatype error = HTTPException nat string

text \<open>The response header \<^verbatim>\<open>X-Cache\<close>.\<close>

datatype x_cache = HIT | MISS

subsection \<open>String normalisation\<close>

text \<open>
  \<^verbatim>\<open>str.strip()\<close> without argument removes leading and trailing whitespace; on ASCII
  the whitespace characters are TAB, LF, VT, FF, CR, FS, GS, RS, US and the space.
\<close>

definition isspace :: "char \<Rightarrow> bool" where
  "isspace c \<longleftrightarrow>
     c \<in> set [CHR 0x09, CHR 0x0A, CHR 0x0B, CHR 0x0C, CHR 0x0D,
              CHR 0x1C, CHR 0x1D, CHR 0x1E, CHR 0x1F, CHR 0x20]"

definition strip :: "string \<Rightarrow> string" where
  "strip s = rev (dropWhile isspace (rev (dropWhile isspace s)))"

definition lower_char :: "char \<Rightarrow> char" where
  "lower_char c =
     (let n = (of_char c :: nat) in if 65 \<le> n \<and> n \<le> 90 then char_of (n + 32) else c)"

definition lower :: "string \<Rightarrow> string" where
  "lower s = map lower_char s"

subsection \<open>The helpers\<close>

text \<open>
  \<^verbatim>\<open>_parse_date\<close>: \<^verbatim>\<open>None\<close> stays \<^verbatim>\<open>None\<close>; any exception of \<^verbatim>\<open>pd.to_datetime\<close>
  becomes \<^verbatim>\<open>ValueError(f"Invalid date format: {s}")\<close>.
\<close>

definition parse_date ::
  "(string \<Rightarrow> timestamp option) \<Rightarrow> string option \<Rightarrow> string + timestamp option" where
  "parse_date to_datetime s =
     (case s of
        None \<Rightarrow> Inr None
      | Some raw \<Rightarrow>
          (case to_datetime raw of
             Some t \<Rightarrow> Inr (Some t)
           | None \<Rightarrow> Inl (''Invalid date format: '' @ raw)))"

text \<open>\<^verbatim>\<open>_make_cache_key\<close>; \<^verbatim>\<open>str\<close> of a string is that string.\<close>

definition make_cache_key ::
  "string option \<Rightarrow> string option \<Rightarrow> string option \<Rightarrow> string option \<Rightarrow> cache_key" where
  "make_cache_key loc sen sd_iso ed_iso =
     (case loc of None \<Rightarrow> None | Some l \<Rightarrow> Some (lower (strip l)),
      case sen of None \<Rightarrow> None | Some s \<Rightarrow> Some (lower (strip s)),
      case sd_iso of None \<Rightarrow> None | Some a \<Rightarrow> Some a,
      case ed_iso of None \<Rightarrow> None | Some b \<Rightarrow> Some b)"

text \<open>
  The reductions of a pandas series of values: \<^verbatim>\<open>mean\<close>, \<^verbatim>\<open>min\<close> and \<^verbatim>\<open>max\<close>.  They
  are only applied to a non-empty series (\<open>compute_stats_from_df\<close> returns before).
\<close>

definition series_mean :: "real list \<Rightarrow> real" where
  "series_mean vs = sum_list vs / real (length vs)"

fun series_min :: "real list \<Rightarrow> real" where
  "series_min (v # vs) = fold min vs v"

fun series_max :: "real list \<Rightarrow> real" where
  "series_max (v # vs) = fold max vs v"

text \<open>\<^verbatim>\<open>_compute_stats_from_df\<close>.\<close>

definition compute_stats_from_df :: "reading list \<Rightarrow> stats_obj" where
  "compute_stats_from_df rows =
     (let cnt = int (length rows) in
      if cnt = 0 then \<lparr>count = 0, avg = None, min_val = None, max_val = None\<rparr>
      else \<lparr>count = cnt,
            avg = Some (series_mean (map col_value rows)),
            min_val = Some (series_min (map col_value rows)),
            max_val = Some (series_max (map col_value rows))\<rparr>)"

subsection \<open>The handler\<close>

text \<open>
  Lines 89 to 97 of \<^verbatim>\<open>stats\<close>: the four selections, applied one after another, each
  skipped when its parameter is \<^verbatim>\<open>None\<close>.
\<close>

definition apply_filters ::
  "reading list \<Rightarrow> string option \<Rightarrow> string option \<Rightarrow> timestamp option \<Rightarrow> timestamp option
     \<Rightarrow> reading list" where
  "apply_filters d loc sen sd ed =
     (let d1 = (case loc of None \<Rightarrow> d
                | Some l \<Rightarrow> filter (\<lambda>r. col_location r = lower (strip l)) d);
          d2 = (case sen of None \<Rightarrow> d1
                | Some s \<Rightarrow> filter (\<lambda>r. col_sensor r = lower (strip s)) d1);
          d3 = (case sd of None \<Rightarrow> d2
                | Some a \<Rightarrow> filter (\<lambda>r. col_timestamp r \<ge> a) d2);
          d4 = (case ed of None \<Rightarrow> d3
                | Some b \<Rightarrow> filter (\<lambda>r. col_timestamp r \<le> b) d3)
      in d4)"

text \<open>Line 82 of \<^verbatim>\<open>stats\<close>: the key, built from the ISO rendering of the parsed dates.\<close>

definition request_key ::
  "(timestamp \<Rightarrow> string) \<Rightarrow> query \<Rightarrow> timestamp option \<Rightarrow> timestamp option \<Rightarrow> cache_key" where
  "request_key isoformat q sd ed =
     make_cache_key (location q) (sensor q)
       (case sd of None \<Rightarrow> None | Some a \<Rightarrow> Some (isoformat a))
       (case ed of None \<Rightarrow> None | Some b \<Rightarrow> Some (isoformat b))"

text \<open>
  \<^verbatim>\<open>stats\<close>.  The result pairs the response with the state after the call.  A
  response is either the raised \<^verbatim>\<open>HTTPException\<close> or the \<^verbatim>\<open>X-Cache\<close> header together
  with the returned statistics.
\<close>

definition stats ::
  "(string \<Rightarrow> timestamp option) \<Rightarrow> (timestamp \<Rightarrow> string) \<Rightarrow> state \<Rightarrow> query
     \<Rightarrow> (error + x_cache \<times> stats_obj) \<times> state" where
  "stats to_datetime isoformat st q =
     (case df st of
        None \<Rightarrow> (Inl (HTTPException 500 ''Data not loaded''), st)
      | Some d \<Rightarrow>
          (case parse_date to_datetime (start_date q) of
             Inl e \<Rightarrow> (Inl (HTTPException 400 e), st)
           | Inr sd \<Rightarrow>
               (case parse_date to_datetime (end_date q) of
                  Inl e \<Rightarrow> (Inl (HTTPException 400 e), st)
                | Inr ed \<Rightarrow>
                    (let key = request_key isoformat q sd ed in
                     case cache st key of
                       Some hit \<Rightarrow> (Inr (HIT, hit), st)
                     | None \<Rightarrow>
                         (let stats_obj = compute_stats_from_df
                                (apply_filters d (location q) (sensor q) sd ed)
                          in (Inr (MISS, stats_obj),
                              st\<lparr>cache := (cache st)(key \<mapsto> stats_obj)\<rparr>))))))"

text \<open>
  The service over its lifetime: requests handled in sequence, each on the state the
  previous one left.  \<open>loaded d\<close> is the state right after \<^verbatim>\<open>load_data\<close> has stored
  the table \<open>d\<close>: the cache is still the empty dict of line 22.
\<close>

fun serve ::
  "(string \<Rightarrow> timestamp option) \<Rightarrow> (timestamp \<Rightarrow> string) \<Rightarrow> state \<Rightarrow> query list \<Rightarrow> state" where
  "serve to_datetime isoformat st [] = st"
| "serve to_datetime isoformat st (q # qs) =
     serve to_datetime isoformat (snd (stats to_datetime isoformat st q)) qs"

definition loaded :: "reading list \<Rightarrow> state" where
  "loaded d = \<lparr>df = Some d, cache = Map.empty\<rparr>"

definition not_loaded :: state where
  "not_loaded = \<lparr>df = None, cache = Map.empty\<rparr>"

subsection \<open>Specification-level notions\<close>

text \<open>
  The matching condition of the aggregation contract, as one conjunction: a row matches
  iff (location filter absent or the row's location equals the trimmed, lower-cased
  filter) and (sensor filter absent or likewise) and (start absent or the row's timestamp
  is at least the start) and (end absent or the row's timestamp is at most the end).
\<close>

definition matches ::
  "string option \<Rightarrow> string option \<Rightarrow> timestamp option \<Rightarrow> timestamp option \<Rightarrow> reading \<Rightarrow> bool" where
  "matches loc sen sd ed r \<longleftrightarrow>
     (case loc of None \<Rightarrow> True | Some l \<Rightarrow> col_location r = lower (strip l)) \<and>
     (case sen of None \<Rightarrow> True | Some s \<Rightarrow> col_sensor r = lower (strip s)) \<and>
     (case sd of None \<Rightarrow> True | Some a \<Rightarrow> a \<le> col_timestamp r) \<and>
     (case ed of None \<Rightarrow> True | Some b \<Rightarrow> col_timestamp r \<le> b)"



subsection \<open>Example data\<close>

text \<open>
  A table of three readings, and the fragment of pandas that the examples below use: three
  date strings that \<^verbatim>\<open>pd.to_datetime\<close> accepts (two of them spell the same instant),
  every other string being rejected, and the ISO rendering of the two instants involved.
  Timestamps are nanoseconds since 1970-01-01.
\<close>

definition demo_to_datetime :: "string \<Rightarrow> timestamp option" where
  "demo_to_datetime s =
     (if s = ''2024-01-01'' then Some 1704067200000000000
      else if s = ''2024-01-01 00:00:00'' then Some 1704067200000000000
      else if s = ''2024-01-02'' then Some 1704153600000000000
      else None)"

definition demo_isoformat :: "timestamp \<Rightarrow> string" where
  "demo_isoformat t =
     (if t = 1704067200000000000 then ''2024-01-01T00:00:00''
      else if t = 1704153600000000000 then ''2024-01-02T00:00:00''
      else '''')"

definition demo_df :: "reading list" where
  "demo_df =
     [\<lparr>col_timestamp = 1704067200000000000, col_location = ''lab'', col_sensor = ''temp'', col_value = 1\<rparr>,
      \<lparr>col_timestamp = 1704153600000000000, col_location = ''lab'', col_sensor = ''temp'', col_value = 3\<rparr>,
      \<lparr>col_timestamp = 1704153600000000000, col_location = ''roof'', col_sensor = ''temp'', col_value = 5\<rparr>]"

subsection \<open>The selections as one filter; the reductions\<close>









subsection \<open>Soundness of the cache\<close>



lemma stats_df: "df (snd (stats td fmt st q)) = df st"
  by (simp add: stats_def Let_def split: option.splits sum.splits)

lemma stats_cache_le: "cache st \<subseteq>\<^sub>m cache (snd (stats td fmt st q))"
  by (auto simp: stats_def Let_def map_le_def split: option.splits sum.splits)


lemma serve_df: "df (serve td fmt st qs) = df st"
  by (induction qs arbitrary: st) (simp_all add: stats_df)





lemma serve_cache_le: "cache st \<subseteq>\<^sub>m cache (serve td fmt st qs)"
proof (induction qs arbitrary: st)
  case Nil
  then show ?case by simp
next
  case (Cons q qs)
  have "cache st \<subseteq>\<^sub>m cache (snd (stats td fmt st q))" by (rule stats_cache_le)
  also have "\<dots> \<subseteq>\<^sub>m cache (serve td fmt (snd (stats td fmt st q)) qs)" by (rule Cons.IH)
  finally show ?case by simp
qed

subsection \<open>Whitespace and letter case\<close>








subsection \<open>Evaluation of the examples\<close>


lemmas demo_eval =
  demo_to_datetime_def demo_isoformat_def demo_df_def parse_date_def request_key_def
  make_cache_key_def strip_def lower_def lower_char_def isspace_def apply_filters_def
  compute_stats_from_df_def series_mean_def matches_def loaded_def not_loaded_def
  stats_def Let_def char_of_def bit_iff_odd

section \<open>Properties\<close>

subsection \<open>Aggregation over the matching rows\<close>



subsection \<open>Empty results\<close>



subsection \<open>Cache keys\<close>



subsection \<open>Repeating a query\<close>



subsection \<open>Invalid dates\<close>

text \<open>
  Claim C5 as stated does not hold for every request: before the table is loaded, a request
  with an unparseable date is rejected with status 500, detail \<^verbatim>\<open>Data not loaded\<close>, and
  not with the validation error, because the check of \<^verbatim>\<open>_df\<close> comes first.
\<close>

theorem invalid_date_with_unloaded_data_counterexample:
  "demo_to_datetime ''not-a-date'' = None \<and>
   stats demo_to_datetime demo_isoformat not_loaded
     \<lparr>location = None, sensor = None, start_date = Some ''not-a-date'', end_date = None\<rparr>
     = (Inl (HTTPException 500 ''Data not loaded''), not_loaded) \<and>
   fst (stats demo_to_datetime demo_isoformat not_loaded
     \<lparr>location = None, sensor = None, start_date = Some ''not-a-date'', end_date = None\<rparr>)
     \<noteq> Inl (HTTPException 400 (''Invalid date format: '' @ ''not-a-date''))"
  by (simp add: demo_eval)

text \<open>
  Claim C5, amended.  Once the table is loaded: if the start date is supplied and does not
  parse, the request fails with status 400 and the detail
  \<^verbatim>\<open>Invalid date format: \<close> followed by the raw start string; if the start date is absent
  or parses and the end date is supplied and does not parse, it fails with status 400 and
  the detail carrying the raw end string; in both cases no result is returned and the state,
  the cache included, is left as it was.  In any state, a request fails with status 400
  only if a supplied date string does not parse, and the detail then carries that string.
\<close>

theorem invalid_date_rejected_when_loaded:
  "(df st \<noteq> None \<longrightarrow>
      (\<forall>raw. start_date q = Some raw \<and> td raw = None \<longrightarrow>
         stats td fmt st q = (Inl (HTTPException 400 (''Invalid date format: '' @ raw)), st)) \<and>
      (\<forall>raw sd. parse_date td (start_date q) = Inr sd \<and> end_date q = Some raw \<and> td raw = None \<longrightarrow>
         stats td fmt st q = (Inl (HTTPException 400 (''Invalid date format: '' @ raw)), st))) \<and>
   (\<forall>msg. fst (stats td fmt st q) = Inl (HTTPException 400 msg) \<longrightarrow>
      (\<exists>raw. (start_date q = Some raw \<or> end_date q = Some raw) \<and> td raw = None \<and>
         msg = ''Invalid date format: '' @ raw))"
  by (auto simp: stats_def parse_date_def Let_def split: option.splits sum.splits)

theorem invalid_date_rejected_when_loaded_witness:
  "stats demo_to_datetime demo_isoformat (loaded demo_df)
     \<lparr>location = None, sensor = None, start_date = Some ''not-a-date'', end_date = None\<rparr>
     = (Inl (HTTPException 400 ''Invalid date format: not-a-date''), loaded demo_df) \<and>
   stats demo_to_datetime demo_isoformat (loaded demo_df)
     \<lparr>location = None, sensor = None, start_date = Some ''2024-01-01'', end_date = Some ''01/02''\<rparr>
     = (Inl (HTTPException 400 ''Invalid date format: 01/02''), loaded demo_df)"
  using invalid_date_rejected_when_loaded [of "loaded demo_df"
      "\<lparr>location = None, sensor = None, start_date = Some ''not-a-date'', end_date = None\<rparr>"
      demo_to_datetime demo_isoformat]
    invalid_date_rejected_when_loaded [of "loaded demo_df"
      "\<lparr>location = None, sensor = None, start_date = Some ''2024-01-01'', end_date = Some ''01/02''\<rparr>"
      demo_to_datetime demo_isoformat]
  by (simp add: demo_eval)

subsection \<open>The table is read-only and the cache only grows\<close>

text \<open>
  Claim C7.  A request never changes the table, and every entry that the cache holds before
  a request is still there, under the same key and with the same value, after it.  The same
  holds over any sequence of requests.
\<close>

theorem stats_keeps_dataset_and_cache_entries:
  "df (snd (stats td fmt st q)) = df st \<and>
   cache st \<subseteq>\<^sub>m cache (snd (stats td fmt st q)) \<and>
   df (serve td fmt st qs) = df st \<and>
   cache st \<subseteq>\<^sub>m cache (serve td fmt st qs)"
  by (simp add: stats_df stats_cache_le serve_df serve_cache_le)

theorem stats_keeps_dataset_and_cache_entries_witness:
  "df (snd (stats demo_to_datetime demo_isoformat (loaded demo_df)
      \<lparr>location = Some ''lab'', sensor = None, start_date = None, end_date = None\<rparr>))
     = Some demo_df \<and>
   cache (loaded demo_df) \<subseteq>\<^sub>m
     cache (snd (stats demo_to_datetime demo_isoformat (loaded demo_df)
      \<lparr>location = Some ''lab'', sensor = None, start_date = None, end_date = None\<rparr>))"
  using stats_keeps_dataset_and_cache_entries [of demo_to_datetime demo_isoformat
      "loaded demo_df"
      "\<lparr>location = Some ''lab'', sensor = None, start_date = None, end_date = None\<rparr>" "[]"]
  by (simp add: loaded_def)

subsection \<open>Requests before the table is loaded\<close>



subsection \<open>Blank location and sensor filters\<close>



subsection \<open>A start date after the end date\<close>



end
